theory Spec2Isabelle
  imports Complex_Main "HOL-Library.AList" "HOL-Library.Multiset"
begin

section \<open>Data model\<close>

text \<open>
  Nodes of the network graph are switch datapath ids or host MACs; both are opaque
  identifiers here. Ports, tags and group ids are Python integers. A Python \<open>set\<close>
  of ports is a duplicate-free list (its iteration order is the order of the list), a
  \<open>dict\<close> is an association list read with \<open>map_of\<close>, written with
  \<open>AList.update\<close> and shrunk with \<open>AList.delete\<close>.
\<close>

type_synonym node = nat
type_synonym port = int
type_synonym addr = nat
type_synonym vtag = "int option"

datatype exn = KeyError | IndexError | TypeError | ValueError | UnboundLocalError
  | NodeNotFound | BadHandle

record edata =
  src_port :: port
  dst_port :: port
  live :: bool

text \<open>\<open>_get_key\<close>: a multicast flow key is the 4-tuple, a unicast key the address alone.\<close>

datatype fkey = McKey addr "addr option" vtag "node option" | UcKey addr

type_synonym ffkey = "port \<times> fkey"

text \<open>The first component of a bucket entry is a port or, after coalescing, a list of ports.\<close>

datatype bport = Port port | Ports "port list"

type_synonym bucket = "bport \<times> vtag \<times> bool"

record switch =
  flows :: "(fkey \<times> (port list \<times> port list \<times> nat)) list"
  FF_groups :: "(ffkey \<times> (int \<times> nat) list) list"
  buckets :: "(int \<times> bucket list) list"
  group_id_index :: int

datatype nattr = HostNode | SwitchNode switch

subsection \<open>Commands sent to a datapath\<close>

record ofmatch =
  eth_dst :: addr
  eth_src :: "addr option"
  vlan_vid :: "int option"
  in_port :: "port option"

datatype action = OFPActionOutput port | OFPActionGroup int | OFPActionPushVlan
  | OFPActionSetField_vlan_vid int | OFPActionPopVlan

datatype flowcmd = OFPFC_ADD | OFPFC_MODIFY_STRICT | OFPFC_DELETE_STRICT

datatype groupcmd = OFPGC_ADD | OFPGC_MODIFY | OFPGC_DELETE

datatype ofbucket = OFPBucket bport "action list"

text \<open>
  A flow modification carries its table id, command, priority, match, the applied
  actions and the goto-table instruction (both absent for a delete); a group modification
  its command, group id and buckets.
\<close>

datatype cmd =
    OFPFlowMod nat flowcmd int ofmatch "action list option" "nat option"
  | OFPGroupMod groupcmd int "ofbucket list"

subsection \<open>Trees\<close>

text \<open>
  A tree is a directed graph object with the graph attributes \<open>root\<close>, \<open>parent\<close>,
  \<open>primary\<close>, \<open>predecessor_switch\<close>, \<open>tag\<close> and, on primaries, \<open>tag_index\<close>;
  every edge has the attribute \<open>backup\<close>. Trees refer to each other (an edge to its
  backup, a backup to its parent and its primary) and are mutated through these
  references, so they live in a store and are named by their index in it.
\<close>

record tree =
  root :: node
  parent :: "nat option"
  primary :: nat
  predecessor_switch :: "node option"
  tag :: vtag
  tag_index :: "int option"
  tnodes :: "node list"
  tedges :: "((node \<times> node) \<times> nat option) list"

subsection \<open>The state of controller and builder\<close>

text \<open>
  \<open>nodes\<close> and \<open>adj\<close> are the network graph (node attributes and directed edges in
  insertion order), \<open>sent\<close> the messages handed to \<open>dp.send_msg\<close> with the switch they
  went to, \<open>logs\<close> the constant text of each logged message (interpolated values are
  dropped), \<open>groups\<close> the builder's registry and \<open>trees\<close> the store of tree objects.
\<close>

record world =
  nodes :: "(node \<times> nattr) list"
  adj :: "((node \<times> node) \<times> edata) list"
  ip_2_mac :: "(addr \<times> addr) list"
  sent :: "(node \<times> cmd) list"
  logs :: "string list"
  groups :: "((addr \<times> addr) \<times> nat) list"
  trees :: "tree list"

section \<open>Exceptions and state\<close>

text \<open>
  A call ends normally with a value, or raises with the state as mutated so far, or
  (for the loops that are not bounded by their data) runs out of fuel.
\<close>

datatype 'a res = Ok 'a world | Raise exn world | Timeout

type_synonym 'a m = "world \<Rightarrow> 'a res"

definition ret :: "'a \<Rightarrow> 'a m" where
  "ret a = (\<lambda>w. Ok a w)"

definition raise :: "exn \<Rightarrow> 'a m" where
  "raise e = (\<lambda>w. Raise e w)"

definition bind :: "'a m \<Rightarrow> ('a \<Rightarrow> 'b m) \<Rightarrow> 'b m" where
  "bind f g = (\<lambda>w. case f w of Ok a w' \<Rightarrow> g a w' | Raise e w' \<Rightarrow> Raise e w' | Timeout \<Rightarrow> Timeout)"

definition seq :: "unit m \<Rightarrow> 'b m \<Rightarrow> 'b m" where
  "seq f g = bind f (\<lambda>_. g)"

definition gets :: "(world \<Rightarrow> 'a) \<Rightarrow> 'a m" where
  "gets f = (\<lambda>w. Ok (f w) w)"

definition modify :: "(world \<Rightarrow> world) \<Rightarrow> unit m" where
  "modify f = (\<lambda>w. Ok () (f w))"

definition lookup :: "exn \<Rightarrow> 'a option \<Rightarrow> 'a m" where
  "lookup e x = (case x of None \<Rightarrow> raise e | Some a \<Rightarrow> ret a)"

definition nth_or_raise :: "'a list \<Rightarrow> nat \<Rightarrow> 'a m" where
  "nth_or_raise xs i = (if i < length xs then ret (xs ! i) else raise IndexError)"

definition log :: "string \<Rightarrow> unit m" where
  "log message = modify (\<lambda>w. w\<lparr>logs := logs w @ [message]\<rparr>)"

definition send_msg :: "node \<Rightarrow> cmd \<Rightarrow> unit m" where
  "send_msg dp c = modify (\<lambda>w. w\<lparr>sent := sent w @ [(dp, c)]\<rparr>)"

fun send_msgs :: "node \<Rightarrow> cmd list \<Rightarrow> unit m" where
  "send_msgs dp [] = ret ()"
| "send_msgs dp (c # cs) = seq (send_msg dp c) (send_msgs dp cs)"

text \<open>Python sets as duplicate-free lists: \<open>s.add(x)\<close> and \<open>s.update(t)\<close>.\<close>

definition set_add :: "'a \<Rightarrow> 'a list \<Rightarrow> 'a list" where
  "set_add x s = (if x \<in> set s then s else s @ [x])"

definition set_update :: "'a list \<Rightarrow> 'a list \<Rightarrow> 'a list" where
  "set_update s t = fold set_add t s"

section \<open>The controller: per-switch forwarding state\<close>

text \<open>\<open>self.network.node[switch_id]['switch']\<close>: a missing node and a host both raise.\<close>

definition get_switch :: "node \<Rightarrow> switch m" where
  "get_switch switch_id = (\<lambda>w. case map_of (nodes w) switch_id of
      Some (SwitchNode s) \<Rightarrow> Ok s w
    | _ \<Rightarrow> Raise KeyError w)"

definition put_switch :: "node \<Rightarrow> switch \<Rightarrow> unit m" where
  "put_switch switch_id s = modify (\<lambda>w. w\<lparr>nodes := AList.update switch_id (SwitchNode s) (nodes w)\<rparr>)"

text \<open>\<open>self.network.node[dst]['host']\<close>.\<close>

definition is_host :: "node \<Rightarrow> bool m" where
  "is_host n = (\<lambda>w. case map_of (nodes w) n of
      Some HostNode \<Rightarrow> Ok True w
    | Some (SwitchNode s) \<Rightarrow> Ok False w
    | None \<Rightarrow> Raise KeyError w)"

text \<open>\<open>self.network[u][v]\<close>.\<close>

definition get_edge :: "node \<Rightarrow> node \<Rightarrow> edata m" where
  "get_edge u v = (\<lambda>w. case map_of (adj w) (u, v) of
      Some e \<Rightarrow> Ok e w
    | None \<Rightarrow> Raise KeyError w)"

definition get_key :: "bool \<Rightarrow> addr \<Rightarrow> addr option \<Rightarrow> vtag \<Rightarrow> node option \<Rightarrow> fkey" where
  "get_key multicast dst_address src_address tg prev_switch_id =
     (if multicast then McKey dst_address src_address tg prev_switch_id else UcKey dst_address)"

definition get_FF_key :: "port \<Rightarrow> fkey \<Rightarrow> ffkey" where
  "get_FF_key p key = (p, key)"

definition MEDPRIO :: int where "MEDPRIO = 2"
definition HIGHPRIO :: int where "HIGHPRIO = 3"

definition get_priority :: "vtag \<Rightarrow> port option \<Rightarrow> int" where
  "get_priority tg inp =
     (let r = (if tg = None then MEDPRIO else HIGHPRIO) in if inp = None then r else r + 1)"

text \<open>\<open>_get_ports\<close>: the output ports of \<open>dsts\<close>, binned into switch side and host side.\<close>

fun get_ports_loop :: "node \<Rightarrow> node list \<Rightarrow> port list \<times> port list \<Rightarrow> (port list \<times> port list) m" where
  "get_ports_loop switch_id [] acc = ret acc"
| "get_ports_loop switch_id (dst # dsts) (ports_s, ports_h) =
     bind (get_edge switch_id dst) (\<lambda>e.
     bind (is_host dst) (\<lambda>h.
       get_ports_loop switch_id dsts
         (if h then (ports_s, set_add (src_port e) ports_h)
          else (set_add (src_port e) ports_s, ports_h))))"

definition get_ports :: "node \<Rightarrow> node list \<Rightarrow> (port list \<times> port list) m" where
  "get_ports switch_id dsts = get_ports_loop switch_id dsts ([], [])"

text \<open>\<open>0x1000 | tag\<close>\<close>

definition vid_of :: "int \<Rightarrow> int" where
  "vid_of tg = or 4096 tg"

definition get_match :: "addr \<Rightarrow> addr option \<Rightarrow> bool \<Rightarrow> vtag \<Rightarrow> port option \<Rightarrow> ofmatch m" where
  "get_match dst_address src_address multicast tg inp =
     (if multicast then
        bind (gets (\<lambda>w. map_of (ip_2_mac w) dst_address)) (\<lambda>d.
        bind (lookup KeyError d) (\<lambda>dmac.
        bind (gets (\<lambda>w. case src_address of None \<Rightarrow> None | Some a \<Rightarrow> map_of (ip_2_mac w) a)) (\<lambda>s.
        bind (lookup KeyError s) (\<lambda>smac.
          ret \<lparr>eth_dst = dmac, eth_src = Some smac, vlan_vid = map_option vid_of tg, in_port = inp\<rparr>))))
      else ret \<lparr>eth_dst = dst_address, eth_src = None, vlan_vid = map_option vid_of tg, in_port = inp\<rparr>)"

text \<open>
  \<open>_get_actions\<close>: the action lists of tables 0, 1 and 2, empty lists left out.
\<close>

definition get_actions :: "(ffkey \<times> (int \<times> nat) list) list \<Rightarrow> fkey \<Rightarrow> vtag \<Rightarrow> port list \<Rightarrow> port list
    \<Rightarrow> action list list" where
  "get_actions FFg key tg ports_s ports_h =
     (let actions_groups = concat (map (\<lambda>p. case map_of FFg (get_FF_key p key) of
              Some gs \<Rightarrow> map (\<lambda>(g_id, index). OFPActionGroup g_id) gs | None \<Rightarrow> []) ports_s);
          actions_outputs =
            concat (map (\<lambda>p. case map_of FFg (get_FF_key p key) of
              Some gs \<Rightarrow> [] | None \<Rightarrow> [OFPActionOutput p]) ports_s)
            @ (if tg = None then map OFPActionOutput ports_h else []);
          actions_remove_tag =
            OFPActionPopVlan # (if tg = None then [] else map OFPActionOutput ports_h)
      in (if length actions_groups > 0 then [actions_groups] else [])
       @ (if length actions_outputs > 0 then [actions_outputs] else [])
       @ (if length actions_remove_tag > 1 then [actions_remove_tag] else []))"

text \<open>\<open>_install_actions\<close>: the messages it sends, in order.\<close>

definition install_cmds :: "int \<Rightarrow> nat \<Rightarrow> ofmatch \<Rightarrow> action list list \<Rightarrow> cmd list" where
  "install_cmds prio current_tables mt actions =
     map (\<lambda>i. OFPFlowMod i (if i < current_tables then OFPFC_MODIFY_STRICT else OFPFC_ADD) prio mt
                (Some (actions ! i)) (if length actions - 1 > i then Some (i + 1) else None))
         [0 ..< length actions]
     @ map (\<lambda>i. OFPFlowMod i OFPFC_DELETE_STRICT prio mt None None)
         [length actions ..< current_tables]"

definition install_actions :: "node \<Rightarrow> int \<Rightarrow> nat \<Rightarrow> ofmatch \<Rightarrow> action list list \<Rightarrow> unit m" where
  "install_actions dp prio current_tables mt actions =
     send_msgs dp (install_cmds prio current_tables mt actions)"

text \<open>\<open>None if prev_switch_id is None else self.network[prev_switch_id][switch_id]['dst_port']\<close>\<close>

definition in_port_of :: "node option \<Rightarrow> node \<Rightarrow> port option m" where
  "in_port_of prev_switch_id switch_id =
     (case prev_switch_id of None \<Rightarrow> ret None
      | Some p \<Rightarrow> bind (get_edge p switch_id) (\<lambda>e. ret (Some (dst_port e))))"

text \<open>
  \<open>add_flow\<close>, the block "check if a flow already exists": it yields \<open>install\<close>,
  \<open>current_tables\<close> and the two port sets to use. When the key has a non-empty entry
  and \<open>forced\<close> is false, the two \<open>for\<close> loops look for a requested port that the
  entry lacks; only then are the installed ports merged in and the entry reinstalled.
\<close>

definition check_existing :: "(port list \<times> port list \<times> nat) option \<Rightarrow> bool \<Rightarrow> port list \<Rightarrow> port list
    \<Rightarrow> bool \<times> nat \<times> port list \<times> port list" where
  "check_existing entry forced ports_s ports_h =
     (case entry of
        Some (current_s, current_h, tables) \<Rightarrow>
          if length current_s > 0 \<or> length current_h > 0 then
            (if forced then
               (True, tables, set_update ports_s current_s, set_update ports_h current_h)
             else if \<exists>p \<in> set ports_s. p \<notin> set current_s then
               (True, tables, set_update ports_s current_s, set_update ports_h current_h)
             else if \<exists>p \<in> set ports_h. p \<notin> set current_h then
               (True, tables, set_update ports_s current_s, set_update ports_h current_h)
             else (False, tables, ports_s, ports_h))
          else (True, 0, ports_s, ports_h)
      | None \<Rightarrow> (True, 0, ports_s, ports_h))"

definition add_flow :: "node \<Rightarrow> addr \<Rightarrow> node list \<Rightarrow> bool \<Rightarrow> addr option \<Rightarrow> vtag \<Rightarrow> bool
    \<Rightarrow> node option \<Rightarrow> unit m" where
  "add_flow switch_id dst_address dsts multicast src_address tg forced prev_switch_id =
     bind (get_switch switch_id) (\<lambda>sw0.
     bind (get_ports switch_id dsts) (\<lambda>(ports_s, ports_h).
     bind (in_port_of prev_switch_id switch_id) (\<lambda>inp.
       let key = get_key multicast dst_address src_address tg prev_switch_id in
       case check_existing (map_of (flows sw0) key) forced ports_s ports_h of
         (install, current_tables, ports_s', ports_h') \<Rightarrow>
           if install then
             bind (get_match dst_address src_address multicast tg inp) (\<lambda>mt.
               let prio = get_priority tg inp;
                   actions = get_actions (FF_groups sw0) key tg ports_s' ports_h'
               in seq (install_actions switch_id prio current_tables mt actions)
                 (bind (get_switch switch_id) (\<lambda>sw.
                  seq (put_switch switch_id
                         (sw\<lparr>flows := AList.update key (ports_s', ports_h', length actions) (flows sw)\<rparr>))
                 (seq (log ''ADDED/MODDIFIED FLOW FROM SWITCH'')
                 (seq (log ''DESTINATION'')
                 (if tg \<noteq> None then log ''TAG'' else ret ()))))))
           else ret ())))"

text \<open>Updating one switch's attributes in place.\<close>

definition upd_switch :: "node \<Rightarrow> (switch \<Rightarrow> switch) \<Rightarrow> unit m" where
  "upd_switch switch_id f = bind (get_switch switch_id) (\<lambda>sw. put_switch switch_id (f sw))"

text \<open>\<open>del d[k]\<close> on the fast-failover index.\<close>

definition del_FF :: "node \<Rightarrow> ffkey \<Rightarrow> unit m" where
  "del_FF switch_id k =
     bind (get_switch switch_id) (\<lambda>sw.
       if map_of (FF_groups sw) k = None then raise KeyError
       else put_switch switch_id (sw\<lparr>FF_groups := AList.delete k (FF_groups sw)\<rparr>))"

definition OFPP_IN_PORT :: port where
  "OFPP_IN_PORT = 4294967288"

text \<open>
  \<open>_parse_buckets_list\<close>. \<open>len(parsed)\<close> is the position of the bucket. A bucket whose
  port is a list outputs to each of them and watches \<open>in_port\<close>.
\<close>

definition out_port :: "port \<Rightarrow> port \<Rightarrow> action" where
  "out_port inp p = OFPActionOutput (if p \<noteq> inp then p else OFPP_IN_PORT)"

definition parse_bucket :: "port \<Rightarrow> bool \<Rightarrow> nat \<times> bucket \<Rightarrow> ofbucket" where
  "parse_bucket inp tagged ib =
     (case ib of (i, (p, tg, drp)) \<Rightarrow>
        if \<not> drp then
          OFPBucket (case p of Ports ps \<Rightarrow> Port inp | Port q \<Rightarrow> Port q)
            ((case tg of
                Some t \<Rightarrow> if i > 0
                   then (if \<not> tagged then [OFPActionPushVlan] else []) @ [OFPActionSetField_vlan_vid (vid_of t)]
                   else []
              | None \<Rightarrow> [])
             @ (case p of Ports ps \<Rightarrow> map (out_port inp) ps | Port q \<Rightarrow> [out_port inp q]))
        else OFPBucket p [])"

definition parse_buckets_list :: "port \<Rightarrow> bucket list \<Rightarrow> ofbucket list" where
  "parse_buckets_list inp bs =
     (case bs of [] \<Rightarrow> []
      | b # _ \<Rightarrow> map (parse_bucket inp (fst (snd b) \<noteq> None)) (zip [0 ..< length bs] bs))"

text \<open>\<open>_add_group\<close>: sends the group and advances the switch's group id cursor.\<close>

definition add_group :: "node \<Rightarrow> ofbucket list \<Rightarrow> int m" where
  "add_group switch_id bs =
     bind (get_switch switch_id) (\<lambda>sw.
       let g_id = group_id_index sw in
       seq (send_msg switch_id (OFPGroupMod OFPGC_ADD g_id bs))
      (seq (log ''Added group'')
      (seq (upd_switch switch_id
              (\<lambda>s. s\<lparr>group_id_index := (if g_id + 1 < 1 then 1 else g_id + 1)\<rparr>))
           (ret g_id))))"

text \<open>\<open>_add_FF_group\<close>: a new group with the single bucket \<open>(port, tag, False)\<close>.\<close>

definition add_FF_group :: "node \<Rightarrow> ffkey \<Rightarrow> port \<Rightarrow> vtag \<Rightarrow> unit m" where
  "add_FF_group switch_id g_key p tg =
     bind (get_switch switch_id) (\<lambda>_.
     bind (add_group switch_id [OFPBucket (Port p) [OFPActionOutput p]]) (\<lambda>g_id.
     seq (upd_switch switch_id (\<lambda>s. s\<lparr>FF_groups := AList.update g_key [(g_id, 0)] (FF_groups s)\<rparr>))
         (upd_switch switch_id (\<lambda>s. s\<lparr>buckets := AList.update g_id [(Port p, tg, False)] (buckets s)\<rparr>))))"

text \<open>
  \<open>_remove_FF_group\<close>, first loop: \<open>for i in range(len(g_buckets)-1, 0, -1)\<close> unregisters
  the live buckets from the end and stops at the first drop-marked one. A bucket whose
  port is a list cannot be part of a dictionary key.
\<close>

fun del_tail_keys :: "node \<Rightarrow> bucket list \<Rightarrow> nat \<Rightarrow> addr \<Rightarrow> addr option \<Rightarrow> node option \<Rightarrow> unit m" where
  "del_tail_keys switch_id g_buckets 0 dst_address src_address prev_switch_id = ret ()"
| "del_tail_keys switch_id g_buckets (Suc i) dst_address src_address prev_switch_id =
     (case g_buckets ! Suc i of (p, tg, drp) \<Rightarrow>
        if \<not> drp then
          (case p of
             Ports ps \<Rightarrow> raise TypeError
           | Port q \<Rightarrow>
               seq (del_FF switch_id
                      (get_FF_key q (get_key True dst_address src_address tg prev_switch_id)))
                   (del_tail_keys switch_id g_buckets i dst_address src_address prev_switch_id))
        else ret ())"

text \<open>
  Second loop: \<open>for i in range(0, len(first_groups))\<close> pops every entry of the group
  from the list while the range keeps its initial length; the flag tells whether an
  index ran past the shrunken list.
\<close>

fun pop_loop :: "int \<Rightarrow> nat list \<Rightarrow> (int \<times> nat) list \<Rightarrow> (int \<times> nat) list \<times> bool" where
  "pop_loop g_id [] fg = (fg, True)"
| "pop_loop g_id (i # ix) fg =
     (if i < length fg
      then pop_loop g_id ix (if fst (fg ! i) = g_id then take i fg @ drop (Suc i) fg else fg)
      else (fg, False))"

text \<open>
  \<open>_remove_FF_group\<close>. The model returns what the Python leaves in the caller's hands:
  the key of the group's first bucket and the final contents of the list object
  \<open>first_groups\<close>, which a caller iterating over that same list keeps reading.
\<close>

definition remove_FF_group :: "node \<Rightarrow> int \<Rightarrow> addr \<Rightarrow> addr option \<Rightarrow> node option
    \<Rightarrow> (ffkey \<times> (int \<times> nat) list) m" where
  "remove_FF_group switch_id g_id dst_address src_address prev_switch_id =
     bind (get_switch switch_id) (\<lambda>sw0.
     seq (send_msg switch_id (OFPGroupMod OFPGC_DELETE g_id []))
    (bind (lookup KeyError (map_of (buckets sw0) g_id)) (\<lambda>g_buckets.
     seq (del_tail_keys switch_id g_buckets (length g_buckets - 1) dst_address src_address prev_switch_id)
    (bind (nth_or_raise g_buckets 0) (\<lambda>(f_port, f_tag, f_drop).
       case f_port of
         Ports ps \<Rightarrow> raise TypeError
       | Port fp \<Rightarrow>
           let f_g_key = get_FF_key fp (get_key True dst_address src_address f_tag prev_switch_id) in
           bind (get_switch switch_id) (\<lambda>sw1.
           bind (lookup KeyError (map_of (FF_groups sw1) f_g_key)) (\<lambda>first_groups.
             let (fg, in_range) = pop_loop g_id [0 ..< length first_groups] first_groups in
             seq (upd_switch switch_id (\<lambda>s. s\<lparr>FF_groups := AList.update f_g_key fg (FF_groups s)\<rparr>))
                 (if \<not> in_range then raise IndexError
                  else
                    seq (if length fg = 0 then del_FF switch_id f_g_key else ret ())
                   (seq (upd_switch switch_id (\<lambda>s. s\<lparr>buckets := AList.delete g_id (buckets s)\<rparr>))
                   (seq (log ''removed group'')
                        (ret (f_g_key, fg))))))))))))"

text \<open>
  \<open>for g_id,index in FF_groups[g_key]: self._remove_FF_group(...)\<close>: the list iterator
  reads position \<open>j\<close> of the list object as it is then. That object is the one
  \<open>_remove_FF_group\<close> pops from exactly when the first bucket of the removed group has
  the key \<open>g_key\<close>. The list never grows, so \<open>n\<close>, its initial length, bounds the
  number of rounds.
\<close>

fun rm_iter :: "nat \<Rightarrow> node \<Rightarrow> ffkey \<Rightarrow> (int \<times> nat) list \<Rightarrow> nat \<Rightarrow> addr \<Rightarrow> addr option
    \<Rightarrow> node option \<Rightarrow> unit m" where
  "rm_iter 0 switch_id g_key lst j dst_address src_address prev_switch_id =
     (if j < length lst then (\<lambda>w. Timeout) else ret ())"
| "rm_iter (Suc n) switch_id g_key lst j dst_address src_address prev_switch_id =
     (if j < length lst then
        bind (remove_FF_group switch_id (fst (lst ! j)) dst_address src_address prev_switch_id)
          (\<lambda>(f_g_key, fg).
             rm_iter n switch_id g_key (if f_g_key = g_key then fg else lst) (Suc j)
               dst_address src_address prev_switch_id)
      else ret ())"

fun rm_groups_loop :: "node \<Rightarrow> fkey \<Rightarrow> port list \<Rightarrow> addr \<Rightarrow> addr option \<Rightarrow> node option \<Rightarrow> unit m" where
  "rm_groups_loop switch_id key [] dst_address src_address prev_switch_id = ret ()"
| "rm_groups_loop switch_id key (p # ps) dst_address src_address prev_switch_id =
     bind (get_switch switch_id) (\<lambda>sw.
       seq (case map_of (FF_groups sw) (get_FF_key p key) of
              None \<Rightarrow> ret ()
            | Some lst \<Rightarrow> rm_iter (length lst) switch_id (get_FF_key p key) lst 0
                           dst_address src_address prev_switch_id)
           (rm_groups_loop switch_id key ps dst_address src_address prev_switch_id))"

text \<open>The argument \<open>dsts\<close> of \<open>remove_flow\<close> is a list of nodes or the string \<open>'all'\<close>.\<close>

datatype dsts = All | Dsts "node list"

text \<open>
  \<open>remove_flow\<close>. The delete messages of the first branch are built without a
  \<open>table_id\<close>, which the message class defaults to 0. \<open>ports_s\<close> and \<open>ports_h\<close> are
  assigned only when \<open>dsts\<close> is a list; the closing log line reads both.
\<close>

definition remove_flow :: "node \<Rightarrow> addr \<Rightarrow> dsts \<Rightarrow> bool \<Rightarrow> addr option \<Rightarrow> vtag \<Rightarrow> node option \<Rightarrow> unit m" where
  "remove_flow switch_id dst_address ds multicast src_address tg prev_switch_id =
     bind (get_switch switch_id) (\<lambda>sw0.
     bind (in_port_of prev_switch_id switch_id) (\<lambda>inp.
       let key = get_key multicast dst_address src_address tg prev_switch_id in
       case map_of (flows sw0) key of
         None \<Rightarrow>
           seq (log ''Tried to remove flows, but these do not exist'')
               (if tg \<noteq> None then log ''Tag'' else ret ())
       | Some (current_s, current_h, current_tables) \<Rightarrow>
           let prio = get_priority tg inp in
           bind (case ds of
                   All \<Rightarrow> ret (None, [], [])
                 | Dsts l \<Rightarrow>
                     bind (get_ports switch_id l) (\<lambda>(ports_s, ports_h).
                       ret (Some (ports_s, ports_h),
                            filter (\<lambda>p. p \<notin> set ports_s) current_s,
                            filter (\<lambda>p. p \<notin> set ports_h) current_h)))
             (\<lambda>(ports, other_s, other_h).
           bind (get_match dst_address src_address multicast tg inp) (\<lambda>mt.
             let actions = get_actions (FF_groups sw0) key tg other_s other_h in
             seq (if length other_s = 0 \<and> length other_h = 0 then
                    send_msgs switch_id
                      (replicate current_tables (OFPFlowMod 0 OFPFC_DELETE_STRICT prio mt None None))
                  else install_actions switch_id prio current_tables mt actions)
            (seq (upd_switch switch_id (\<lambda>s.
                    if other_s \<noteq> [] \<or> other_h \<noteq> []
                    then s\<lparr>flows := AList.update key (other_s, other_h, length actions) (flows s)\<rparr>
                    else s\<lparr>flows := AList.delete key (flows s)\<rparr>))
            (seq (rm_groups_loop switch_id key
                    (case ports of
                       None \<Rightarrow> current_s
                     | Some (ports_s, ports_h) \<Rightarrow> filter (\<lambda>p. p \<in> set current_s) ports_s)
                    dst_address src_address prev_switch_id)
                 (case ports of
                    None \<Rightarrow> raise UnboundLocalError
                  | Some _ \<Rightarrow>
                      seq (log ''REMOVED FLOW FROM SWITCH'')
                     (seq (log ''DESTINATION'')
                          (if tg \<noteq> None then log ''TAG'' else ret ())))))))))"

text \<open>\<open>in_port = 0\<close> without a previous switch, else the arrival port.\<close>

definition in_port0 :: "node option \<Rightarrow> node \<Rightarrow> port m" where
  "in_port0 prev_switch_id switch_id =
     (case prev_switch_id of None \<Rightarrow> ret 0
      | Some p \<Rightarrow> bind (get_edge p switch_id) (\<lambda>e. ret (dst_port e)))"

text \<open>
  \<open>add_backup\<close>. The three cases after the base group is found: no bucket past
  \<open>index\<close> (append); a bucket there and no deeper protection needed (its port becomes,
  or already is, a list that gets \<open>backup_port\<close> appended; when it already is a list
  the bucket's tuple is left as it is); otherwise a new group whose first
  \<open>index + 1\<close> buckets are drop-marked copies. (A copied port list would be shared
  between the two groups in Python; the model copies its value.)
\<close>

definition add_backup :: "node option \<Rightarrow> node \<Rightarrow> addr \<Rightarrow> node \<Rightarrow> node \<Rightarrow> addr option \<Rightarrow> vtag
    \<Rightarrow> vtag \<Rightarrow> bool \<Rightarrow> bool \<Rightarrow> unit m" where
  "add_backup prev_switch_id0 switch_id dst_address dst backup_dst src_address tg tag_origin
       needs_backup in_port_flow =
     bind (get_switch switch_id) (\<lambda>_.
     bind (in_port0 prev_switch_id0 switch_id) (\<lambda>inp.
       let prev_switch_id = (if \<not> in_port_flow then None else prev_switch_id0);
           key_origin = get_key True dst_address src_address tag_origin prev_switch_id;
           key_backup = get_key True dst_address src_address tg prev_switch_id
       in
     bind (get_edge switch_id dst) (\<lambda>e1.
     bind (get_edge switch_id backup_dst) (\<lambda>e2.
       let p = src_port e1;
           backup_port = src_port e2;
           b_g_key = get_FF_key backup_port key_backup;
           g_key = get_FF_key p key_origin
       in
     seq (log ''Adding backup'')
    (bind (get_switch switch_id) (\<lambda>sw0.
       if map_of (FF_groups sw0) b_g_key \<noteq> None then log ''FAILED: backup already installed''
       else
         seq (if map_of (FF_groups sw0) g_key = None then
                seq (add_FF_group switch_id g_key p tag_origin)
                    (add_flow switch_id dst_address [] True src_address tag_origin True prev_switch_id)
              else ret ())
        (bind (get_switch switch_id) (\<lambda>sw1.
         bind (lookup KeyError (map_of (FF_groups sw1) g_key)) (\<lambda>gs.
         bind (nth_or_raise gs 0) (\<lambda>(base_id, index).
         bind (lookup KeyError (map_of (buckets sw1) base_id)) (\<lambda>base_group.
           seq (if length base_group = index + 1 then
                  (let bg = base_group @ [(Port backup_port, tg, False)] in
                   seq (upd_switch switch_id (\<lambda>s. s\<lparr>buckets := AList.update base_id bg (buckets s)\<rparr>))
                  (seq (send_msg switch_id (OFPGroupMod OFPGC_MODIFY base_id (parse_buckets_list inp bg)))
                       (upd_switch switch_id (\<lambda>s. s\<lparr>FF_groups :=
                          AList.update b_g_key [(base_id, index + 1)] (FF_groups s)\<rparr>))))
                else if \<not> needs_backup then
                  bind (nth_or_raise base_group (index + 1)) (\<lambda>(pl, t, d).
                    let bg = (case pl of
                                Ports ps \<Rightarrow> base_group[index + 1 := (Ports (ps @ [backup_port]), t, d)]
                              | Port q \<Rightarrow> base_group[index + 1 := (Ports [q, backup_port], tg, False)])
                    in
                    seq (upd_switch switch_id (\<lambda>s. s\<lparr>buckets := AList.update base_id bg (buckets s)\<rparr>))
                   (seq (send_msg switch_id (OFPGroupMod OFPGC_MODIFY base_id (parse_buckets_list inp bg)))
                        (upd_switch switch_id (\<lambda>s. s\<lparr>FF_groups :=
                           AList.update b_g_key [(base_id, index)] (FF_groups s)\<rparr>))))
                else
                  (if length base_group < index + 1 then raise IndexError
                   else
                     let b_group = map (\<lambda>(q, t, d). (q, t, True)) (take (index + 1) base_group)
                                   @ [(Port backup_port, tg, False)]
                     in
                     bind (add_group switch_id (parse_buckets_list inp b_group)) (\<lambda>g_id.
                     seq (upd_switch switch_id (\<lambda>s. s\<lparr>buckets := AList.update g_id b_group (buckets s)\<rparr>))
                    (case hd b_group of (f_port, f_tag, f_drop) \<Rightarrow>
                       (case f_port of
                          Ports ps \<Rightarrow> raise TypeError
                        | Port fp \<Rightarrow>
                            let f_g_key = get_FF_key fp
                                  (get_key True dst_address src_address f_tag prev_switch_id) in
                            bind (get_switch switch_id) (\<lambda>sw2.
                            bind (lookup KeyError (map_of (FF_groups sw2) f_g_key)) (\<lambda>fgs.
                            seq (upd_switch switch_id (\<lambda>s. s\<lparr>FF_groups :=
                                   AList.update f_g_key (fgs @ [(g_id, 0)]) (FF_groups s)\<rparr>))
                           (seq (upd_switch switch_id (\<lambda>s. s\<lparr>FF_groups :=
                                   AList.update b_g_key [(g_id, index + 1)] (FF_groups s)\<rparr>))
                                (add_flow switch_id dst_address [] True src_address f_tag True
                                   prev_switch_id)))))))))
          (seq (log ''Added backup'')
               (log ''From tag to tag'')))))))))))))"

text \<open>
  \<open>remove_backup\<close>, the collection of the groups to treat. The loop
  \<open>for g_id,index in FF_groups[f_g_key]\<close> rebinds \<open>index\<close>: after it, \<open>index\<close> is the
  position stored with the last entry of that list.
\<close>

fun collect_groups :: "(int \<times> bucket list) list \<Rightarrow> port \<Rightarrow> vtag \<Rightarrow> (int \<times> nat) list \<Rightarrow> int list \<times> nat
    \<Rightarrow> (int list \<times> nat) m" where
  "collect_groups bm backup_port tg [] acc = ret acc"
| "collect_groups bm backup_port tg ((g_id, index) # rest) (rem_groups, index0) =
     bind (lookup KeyError (map_of bm g_id)) (\<lambda>grp.
     bind (nth_or_raise grp index) (\<lambda>(bp, bt, bd).
       collect_groups bm backup_port tg rest
         (if (bp = Port backup_port \<or> (case bp of Ports ps \<Rightarrow> backup_port \<in> set ps | Port q \<Rightarrow> False))
             \<and> bt = tg
          then (rem_groups @ [g_id], index) else (rem_groups, index))))"

text \<open>
  The truncation branch: \<open>for i in range(index, len(group))\<close> unregisters the live
  buckets from \<open>index\<close> on.
\<close>

fun del_keys_from :: "node \<Rightarrow> bucket list \<Rightarrow> addr \<Rightarrow> addr option \<Rightarrow> node option \<Rightarrow> unit m" where
  "del_keys_from switch_id [] dst_address src_address prev_switch_id = ret ()"
| "del_keys_from switch_id ((p, t, d) # rest) dst_address src_address prev_switch_id =
     seq (if \<not> d then
            (case p of
               Ports ps \<Rightarrow> raise TypeError
             | Port q \<Rightarrow> del_FF switch_id
                 (get_FF_key q (get_key True dst_address src_address t prev_switch_id)))
          else ret ())
         (del_keys_from switch_id rest dst_address src_address prev_switch_id)"

text \<open>
  The loop over \<open>rem_groups\<close>; it returns \<open>removed_group\<close>. The test
  \<open>isinstance(group[index], list)\<close> reads a bucket, which is a tuple, so it is false
  whenever the index is in range.
\<close>

fun rem_loop :: "node \<Rightarrow> port \<Rightarrow> nat \<Rightarrow> int list \<Rightarrow> addr \<Rightarrow> addr option \<Rightarrow> node option \<Rightarrow> bool \<Rightarrow> bool m" where
  "rem_loop switch_id inp index [] dst_address src_address prev_switch_id removed = ret removed"
| "rem_loop switch_id inp index (g_id # rest) dst_address src_address prev_switch_id removed =
     bind (get_switch switch_id) (\<lambda>sw.
     bind (lookup KeyError (map_of (buckets sw) g_id)) (\<lambda>grp.
     bind (if index = 0 then ret True
           else bind (nth_or_raise grp (index - 1)) (\<lambda>(bp, bt, bd). ret bd)) (\<lambda>whole.
       if whole then
         bind (remove_FF_group switch_id g_id dst_address src_address prev_switch_id) (\<lambda>_.
           rem_loop switch_id inp index rest dst_address src_address prev_switch_id True)
       else
         bind (nth_or_raise grp index) (\<lambda>_.
         seq (del_keys_from switch_id (drop index grp) dst_address src_address prev_switch_id)
        (seq (upd_switch switch_id (\<lambda>s. s\<lparr>buckets := AList.update g_id (take index grp) (buckets s)\<rparr>))
        (seq (send_msg switch_id
                (OFPGroupMod OFPGC_MODIFY g_id (parse_buckets_list inp (take index grp))))
             (rem_loop switch_id inp index rest dst_address src_address prev_switch_id removed)))))))"

text \<open>
  \<open>remove_backup\<close>. The builder passes \<open>origin_dst\<close> for \<open>dst\<close>, which is \<open>None\<close> at the
  top of the recursion; \<open>self.network[switch_id][None]\<close> then raises.
\<close>

definition remove_backup :: "node option \<Rightarrow> node \<Rightarrow> addr \<Rightarrow> node option \<Rightarrow> node \<Rightarrow> addr option \<Rightarrow> vtag
    \<Rightarrow> bool \<Rightarrow> unit m" where
  "remove_backup prev_switch_id0 switch_id dst_address dst backup_dst src_address tg in_port_flow =
     bind (get_switch switch_id) (\<lambda>_.
     bind (in_port0 prev_switch_id0 switch_id) (\<lambda>inp.
       let prev_switch_id = (if \<not> in_port_flow then None else prev_switch_id0);
           key_backup = get_key True dst_address src_address tg prev_switch_id
       in
     bind (case dst of None \<Rightarrow> raise KeyError | Some d \<Rightarrow> get_edge switch_id d) (\<lambda>e1.
     bind (get_edge switch_id backup_dst) (\<lambda>e2.
       let backup_port = src_port e2;
           b_g_key = get_FF_key backup_port key_backup
       in
     seq (log ''Removing backup'')
    (bind (get_switch switch_id) (\<lambda>sw0.
       case map_of (FF_groups sw0) b_g_key of
         None \<Rightarrow> log ''FAILED: backup not installed''
       | Some bl \<Rightarrow>
           bind (nth_or_raise bl 0) (\<lambda>(base_id, index).
           bind (lookup KeyError (map_of (buckets sw0) base_id)) (\<lambda>base_group.
           bind (nth_or_raise base_group 0) (\<lambda>(f_port, f_tag, f_drop).
           bind (if length base_group = index + 1 then ret ([base_id], index)
                 else (case f_port of
                         Ports ps \<Rightarrow> raise TypeError
                       | Port fp \<Rightarrow>
                           bind (lookup KeyError (map_of (FF_groups sw0)
                                   (get_FF_key fp (get_key True dst_address src_address f_tag
                                      prev_switch_id)))) (\<lambda>fgs.
                             collect_groups (buckets sw0) backup_port tg fgs ([], index))))
             (\<lambda>(rem_groups, index').
           bind (rem_loop switch_id inp index' rem_groups dst_address src_address prev_switch_id False)
             (\<lambda>removed_group.
           seq (if removed_group then
                  add_flow switch_id dst_address [] True src_address f_tag True prev_switch_id
                else ret ())
               (log ''Removed backup''))))))))))))"

section \<open>The builder: the registry of trees\<close>

definition max_vid :: int where
  "max_vid = 4094"

text \<open>Reading and writing a tree object through its reference.\<close>

definition get_tree :: "nat \<Rightarrow> tree m" where
  "get_tree h = (\<lambda>w. if h < length (trees w) then Ok (trees w ! h) w else Raise BadHandle w)"

definition put_tree :: "nat \<Rightarrow> tree \<Rightarrow> unit m" where
  "put_tree h t = modify (\<lambda>w. w\<lparr>trees := (trees w)[h := t]\<rparr>)"

definition new_tree :: "tree \<Rightarrow> nat m" where
  "new_tree t = (\<lambda>w. Ok (length (trees w)) (w\<lparr>trees := trees w @ [t]\<rparr>))"

text \<open>
  \<open>_create_tree\<close>. A primary starts its \<open>tag_index\<close> at 1 and is its own primary; a
  backup takes the primary's \<open>tag_index\<close> as its tag and advances it, wrapping after
  \<open>max_vid\<close>. (The fresh graph object is built before the primary is read; it is
  unreachable if that read raises, so it is stored once its attributes are known.)
\<close>

definition create_tree :: "node \<Rightarrow> nat option \<Rightarrow> node option \<Rightarrow> nat m" where
  "create_tree switch_id par pred_switch =
     (case par of
        None \<Rightarrow>
          bind (gets (\<lambda>w. length (trees w))) (\<lambda>h.
            new_tree \<lparr>root = switch_id, parent = None, primary = h,
                      predecessor_switch = pred_switch, tag = None, tag_index = Some 1,
                      tnodes = [switch_id], tedges = []\<rparr>)
      | Some p \<Rightarrow>
          bind (get_tree p) (\<lambda>pt.
          bind (get_tree (primary pt)) (\<lambda>prt.
          bind (lookup KeyError (tag_index prt)) (\<lambda>tg.
          bind (new_tree \<lparr>root = switch_id, parent = Some p, primary = primary pt,
                      predecessor_switch = pred_switch, tag = Some tg, tag_index = None,
                      tnodes = [switch_id], tedges = []\<rparr>) (\<lambda>h.
          bind (get_tree (primary pt)) (\<lambda>prt'.
          seq (put_tree (primary pt)
                 (prt'\<lparr>tag_index := Some (if tg + 1 > max_vid then 1 else tg + 1)\<rparr>))
              (ret h)))))))"

text \<open>\<open>_undo_tree\<close>: steps the primary's \<open>tag_index\<close> back, wrapping below 1.\<close>

definition undo_tree :: "nat \<Rightarrow> unit m" where
  "undo_tree h =
     bind (get_tree h) (\<lambda>t.
       if parent t \<noteq> None then
         bind (get_tree (primary t)) (\<lambda>prt.
         bind (lookup KeyError (tag_index prt)) (\<lambda>tg.
           put_tree (primary t)
             (prt\<lparr>tag_index := Some (if tg - 1 < 1 then max_vid else tg - 1)\<rparr>)))
       else ret ())"

section \<open>Graph operations on trees\<close>

definition has_node :: "tree \<Rightarrow> node \<Rightarrow> bool" where
  "has_node T v = (v \<in> set (tnodes T))"

definition has_edge :: "tree \<Rightarrow> node \<Rightarrow> node \<Rightarrow> bool" where
  "has_edge T x y = (map_of (tedges T) (x, y) \<noteq> None)"

text \<open>\<open>T.size()\<close> and \<open>T.number_of_edges()\<close>.\<close>

definition tsize :: "tree \<Rightarrow> nat" where
  "tsize T = length (tedges T)"

definition successors :: "tree \<Rightarrow> node \<Rightarrow> node list" where
  "successors T x = map (snd \<circ> fst) (filter (\<lambda>e. fst (fst e) = x) (tedges T))"

definition predecessors :: "tree \<Rightarrow> node \<Rightarrow> node list" where
  "predecessors T y = map (fst \<circ> fst) (filter (\<lambda>e. snd (fst e) = y) (tedges T))"

definition out_degree :: "tree \<Rightarrow> node \<Rightarrow> nat" where
  "out_degree T x = length (successors T x)"

text \<open>\<open>T.add_edge(u, v, backup=b)\<close>: missing end points become nodes.\<close>

definition add_edge :: "node \<Rightarrow> node \<Rightarrow> nat option \<Rightarrow> tree \<Rightarrow> tree" where
  "add_edge u v b T =
     T\<lparr>tnodes := set_add v (set_add u (tnodes T)), tedges := AList.update (u, v) b (tedges T)\<rparr>"

text \<open>\<open>T.remove_node(n)\<close>: the node goes with every edge at it.\<close>

definition remove_node :: "node \<Rightarrow> tree \<Rightarrow> tree" where
  "remove_node n T =
     T\<lparr>tnodes := removeAll n (tnodes T),
       tedges := filter (\<lambda>e. fst (fst e) \<noteq> n \<and> snd (fst e) \<noteq> n) (tedges T)\<rparr>"

section \<open>Path strategies\<close>

subsection \<open>The shortest-path search of the graph library\<close>

text \<open>
  Both strategies call the graph library's Dijkstra search with a weight function that
  returns \<open>None\<close> for an edge to be ignored. The search is modelled after the library's
  multi-source routine: \<open>dist\<close> holds the final distances, \<open>seen\<close> the best distances
  found so far, \<open>paths\<close> a path per reached node, \<open>fringe\<close> the heap (its least element
  is the least pair of distance and insertion count) and \<open>cnt\<close> the insertion counter.
  Weights are rational numbers here.
\<close>

type_synonym weightfn = "node \<Rightarrow> node \<Rightarrow> edata \<Rightarrow> rat option"

record dstate =
  dist :: "node \<Rightarrow> rat option"
  seen :: "node \<Rightarrow> rat option"
  paths :: "node \<Rightarrow> node list option"
  fringe :: "(rat \<times> nat \<times> node) list"
  cnt :: nat

definition before :: "rat \<times> nat \<times> node \<Rightarrow> rat \<times> nat \<times> node \<Rightarrow> bool" where
  "before a b = (fst a < fst b \<or> (fst a = fst b \<and> fst (snd a) < fst (snd b)))"

fun least :: "rat \<times> nat \<times> node \<Rightarrow> (rat \<times> nat \<times> node) list \<Rightarrow> rat \<times> nat \<times> node" where
  "least x [] = x"
| "least x (y # ys) = least (if before y x then y else x) ys"

text \<open>
  The loop over the out-edges of the node \<open>v\<close> just settled at distance \<open>d\<close>.
\<close>

fun relax :: "weightfn \<Rightarrow> node \<Rightarrow> rat \<Rightarrow> ((node \<times> node) \<times> edata) list \<Rightarrow> dstate \<Rightarrow> exn + dstate" where
  "relax wt v d [] st = Inr st"
| "relax wt v d (((x, u), e) # es) st =
     (case wt v u e of
        None \<Rightarrow> relax wt v d es st
      | Some cost \<Rightarrow>
          (case dist st u of
             Some du \<Rightarrow> if d + cost < du then Inl ValueError else relax wt v d es st
           | None \<Rightarrow>
               if (case seen st u of None \<Rightarrow> True | Some su \<Rightarrow> d + cost < su) then
                 (case paths st v of
                    None \<Rightarrow> Inl KeyError
                  | Some pv \<Rightarrow>
                      relax wt v d es
                        (st\<lparr>seen := (seen st)(u \<mapsto> d + cost),
                            fringe := fringe st @ [(d + cost, cnt st, u)],
                            cnt := Suc (cnt st),
                            paths := (paths st)(u \<mapsto> pv @ [u])\<rparr>))
               else relax wt v d es st))"

definition out_edges :: "((node \<times> node) \<times> edata) list \<Rightarrow> node \<Rightarrow> ((node \<times> node) \<times> edata) list" where
  "out_edges G v = filter (\<lambda>e. fst (fst e) = v) G"

lemma relax_fringe_dist:
  "relax wt v d es st = Inr st' \<Longrightarrow>
     dist st' = dist st \<and> length (fringe st') \<le> length (fringe st) + length es"
proof (induction es arbitrary: st)
  case Nil
  then show ?case by simp
next
  case (Cons a es)
  obtain x u e where a: "a = ((x, u), e)" by (cases a) auto
  from Cons.prems show ?case
    unfolding a
    by (auto split: option.splits if_splits dest!: Cons.IH)
qed

lemma least_mem: "least x ys \<in> set (x # ys)"
  by (induction ys arbitrary: x) auto

lemma out_edges_count:
  "m v = None \<Longrightarrow>
     length (filter (\<lambda>e. (m(v \<mapsto> d)) (fst (fst e)) = None) G) + length (out_edges G v)
       = length (filter (\<lambda>e. m (fst (fst e)) = None) G)"
  by (induction G) (auto simp: out_edges_def)

lemma length_remove1_less: "x \<in> set xs \<Longrightarrow> length (remove1 x xs) < length xs"
  by (induction xs) auto

text \<open>
  The main loop: pop the least entry; skip it when its node is settled; otherwise settle
  the node, stop at the target, else relax its out-edges.
\<close>

function dijkstra_loop :: "weightfn \<Rightarrow> ((node \<times> node) \<times> edata) list \<Rightarrow> node \<Rightarrow> dstate \<Rightarrow> exn + dstate" where
  "dijkstra_loop wt G target st =
     (case fringe st of
        [] \<Rightarrow> Inr st
      | f # fs \<Rightarrow>
          (let m = least f fs;
               d = fst m;
               v = snd (snd m);
               st1 = st\<lparr>fringe := remove1 m (fringe st)\<rparr>
           in if dist st v \<noteq> None then dijkstra_loop wt G target st1
              else
                let st2 = st1\<lparr>dist := (dist st)(v \<mapsto> d)\<rparr> in
                if v = target then Inr st2
                else (case relax wt v d (out_edges G v) st2 of
                        Inl e \<Rightarrow> Inl e
                      | Inr st3 \<Rightarrow> dijkstra_loop wt G target st3)))"
  by pat_completeness auto

termination
proof (relation "measure (\<lambda>(wt, G, target, st).
          length (fringe st) + length (filter (\<lambda>e. dist st (fst (fst e)) = None) G))", goal_cases)
  case 1
  show ?case by simp
next
  case (2 wt G target st f fs m d v st1)
  have "m \<in> set (fringe st)" using 2 least_mem [of f fs] by simp
  from length_remove1_less [OF this] show ?case using 2(5) by simp
next
  case (3 wt G target st f fs m d v st1 st2 st3)
  have mem: "m \<in> set (fringe st)" using 3 least_mem [of f fs] by simp
  from 3 have none: "dist st v = None" by simp
  from 3 have rl: "relax wt v d (out_edges G v) st2 = Inr st3" by simp
  from relax_fringe_dist [OF rl] 3
  have d3: "dist st3 = (dist st)(v \<mapsto> d)"
    and l3: "length (fringe st3) \<le> length (remove1 m (fringe st)) + length (out_edges G v)"
    by simp_all
  from length_remove1_less [OF mem] l3 out_edges_count [of "dist st" v d G] none d3
  show ?case by simp
qed

text \<open>
  \<open>multi_source_dijkstra\<close> with a target, as the strategies use it: every source must
  be a node of the graph, the source set must not be empty, a target among the sources
  is its own path; otherwise the search runs from all sources (distance 0, counted in
  the order given) and the dictionary of paths is the result.
\<close>

definition init_state :: "node list \<Rightarrow> dstate" where
  "init_state sources =
     \<lparr>dist = Map.empty,
      seen = (\<lambda>n. if n \<in> set sources then Some 0 else None),
      paths = (\<lambda>n. if n \<in> set sources then Some [n] else None),
      fringe = map (\<lambda>(i, s). (0, i, s)) (zip [0 ..< length sources] sources),
      cnt = length sources\<rparr>"

definition multi_source_dijkstra :: "node list \<Rightarrow> ((node \<times> node) \<times> edata) list \<Rightarrow> node list \<Rightarrow> node
    \<Rightarrow> weightfn \<Rightarrow> exn + (node \<Rightarrow> node list option)" where
  "multi_source_dijkstra ns G sources target wt =
     (if sources = [] then Inl ValueError
      else if target \<in> set sources then Inr [target \<mapsto> [target]]
      else if \<exists>s \<in> set sources. s \<notin> set ns then Inl NodeNotFound
      else (case dijkstra_loop wt G target (init_state sources) of
              Inl e \<Rightarrow> Inl e
            | Inr st \<Rightarrow> Inr (paths st)))"

subsection \<open>SPT and DST\<close>

text \<open>
  The result of a join: a path, an exception that the strategy does not catch, or no
  result when the walk to the root runs out of fuel.
\<close>

datatype 'a outcome = Returns 'a | Raises exn | Diverges

text \<open>The weight functions of the two strategies; \<open>epsilon = 1.0/(T.size() + 1)\<close>.\<close>

definition SPT_weight :: "(node \<times> node) list \<Rightarrow> tree \<Rightarrow> weightfn" where
  "SPT_weight exclude T x y e =
     (if \<not> live e then None
      else if (x, y) \<in> set exclude then None
      else if has_edge T x y then Some (1 - 1 / (of_nat (tsize T) + 1))
      else if has_node T y then None
      else Some 1)"

definition DST_weight :: "(node \<times> node) list \<Rightarrow> tree \<Rightarrow> weightfn" where
  "DST_weight exclude T x y e =
     (if \<not> live e then None
      else if (x, y) \<in> set exclude then None
      else if \<not> has_edge T x y \<and> has_node T y then None
      else Some 1)"

text \<open>
  \<open>SPT.join\<close>: \<open>dijkstra_path\<close> from the root; no path is answered with the empty
  list. The exceptions caught are the graph library's own; the others pass through.
\<close>

definition SPT_join :: "node list \<Rightarrow> ((node \<times> node) \<times> edata) list \<Rightarrow> (node \<times> node) list \<Rightarrow> tree \<Rightarrow> node
    \<Rightarrow> node list outcome" where
  "SPT_join ns G exclude T v =
     (if has_node T v then Returns []
      else (case multi_source_dijkstra ns G [root T] v (SPT_weight exclude T) of
              Inl e \<Rightarrow> Raises e
            | Inr ps \<Rightarrow> (case ps v of None \<Rightarrow> Returns [] | Some p \<Rightarrow> Returns p)))"

text \<open>
  \<open>DST.join\<close>, the walk from the entry node to the root:
  \<open>while cur != root: cur = list(T.predecessors(cur))[0]; pre.append(cur)\<close>.
\<close>

fun walk_up :: "nat \<Rightarrow> tree \<Rightarrow> node \<Rightarrow> node list \<Rightarrow> node list outcome" where
  "walk_up fuel T cur pre =
     (if cur = root T then Returns pre
      else (case fuel of
              0 \<Rightarrow> Diverges
            | Suc n \<Rightarrow>
                (case predecessors T cur of
                   [] \<Rightarrow> Raises IndexError
                 | p # _ \<Rightarrow> walk_up n T p (pre @ [p]))))"

definition DST_join :: "nat \<Rightarrow> node list \<Rightarrow> ((node \<times> node) \<times> edata) list \<Rightarrow> (node \<times> node) list \<Rightarrow> tree
    \<Rightarrow> node \<Rightarrow> node list outcome" where
  "DST_join fuel ns G exclude T v =
     (if has_node T v then Returns []
      else (case multi_source_dijkstra ns G (tnodes T) v (DST_weight exclude T) of
              Inl e \<Rightarrow> Raises e
            | Inr ps \<Rightarrow>
                (case ps v of
                   None \<Rightarrow> Returns []
                 | Some path \<Rightarrow>
                     (case path of
                        [] \<Rightarrow> Raises IndexError
                      | w # _ \<Rightarrow>
                          (case walk_up fuel T w [] of
                             Returns pre \<Rightarrow> Returns (rev pre @ path)
                           | Raises e \<Rightarrow> Raises e
                           | Diverges \<Rightarrow> Diverges)))))"

section \<open>The builder: subscribers\<close>

datatype strategy = SPT | DST

text \<open>
  \<open>self.join(network, exclude, T, v)\<close> on the controller's network graph and the tree
  object \<open>h\<close>.
\<close>

definition join :: "strategy \<Rightarrow> nat \<Rightarrow> (node \<times> node) list \<Rightarrow> nat \<Rightarrow> node \<Rightarrow> node list m" where
  "join strat fuel exclude h v =
     bind (get_tree h) (\<lambda>T w.
       case (case strat of
               SPT \<Rightarrow> SPT_join (map fst (nodes w)) (adj w) exclude T v
             | DST \<Rightarrow> DST_join fuel (map fst (nodes w)) (adj w) exclude T v) of
         Returns p \<Rightarrow> Ok p w
       | Raises e \<Rightarrow> Raise e w
       | Diverges \<Rightarrow> Timeout)"

definition upd_tree :: "nat \<Rightarrow> (tree \<Rightarrow> tree) \<Rightarrow> unit m" where
  "upd_tree h f = bind (get_tree h) (\<lambda>T. put_tree h (f T))"

text \<open>
  \<open>_add_path\<close>: from the end of the path towards its head, every edge the tree lacks
  gets a flow on its tail switch and is added; the first edge found in the tree ends
  the loop. \<open>i\<close> runs from \<open>len(path) - 1\<close> down to 1.
\<close>

fun add_path_loop :: "addr \<Rightarrow> addr \<Rightarrow> nat \<Rightarrow> node list \<Rightarrow> nat \<Rightarrow> unit m" where
  "add_path_loop ip_group ip_source h path 0 = ret ()"
| "add_path_loop ip_group ip_source h path (Suc i) =
     bind (get_tree h) (\<lambda>T.
       let prev = path ! i; cur = path ! Suc i in
       if \<not> has_node T prev \<or> cur \<notin> set (successors T prev) then
         seq (add_flow prev ip_group [cur] True (Some ip_source) (tag T) False None)
        (seq (upd_tree h (add_edge prev cur None))
             (add_path_loop ip_group ip_source h path i))
       else ret ())"

definition add_path :: "addr \<Rightarrow> addr \<Rightarrow> nat \<Rightarrow> node list \<Rightarrow> bool \<Rightarrow> unit m" where
  "add_path ip_group ip_source h path needs_backup =
     add_path_loop ip_group ip_source h path (length path - 1)"

text \<open>
  \<open>_leave\<close>. Its three loops walk from \<open>v\<close> towards the root along the first
  predecessor; each round and each recursive call uses one unit of fuel. The function
  has no \<open>return\<close> with a value.
\<close>

definition first_pred :: "nat \<Rightarrow> node \<Rightarrow> node m" where
  "first_pred h cur =
     bind (get_tree h) (\<lambda>T. nth_or_raise (predecessors T cur) 0)"

fun prune_flows :: "nat \<Rightarrow> nat \<Rightarrow> node \<Rightarrow> addr \<Rightarrow> addr \<Rightarrow> node option \<Rightarrow> unit m" where
  "prune_flows fuel h cur ip_group ip_source origin_dst =
     bind (get_tree h) (\<lambda>T.
       if out_degree T cur \<le> 1 \<and> cur \<noteq> root T then
         (case fuel of
            0 \<Rightarrow> (\<lambda>w. Timeout)
          | Suc n \<Rightarrow>
              bind (first_pred h cur) (\<lambda>pre.
              seq (if pre \<noteq> root T \<or> parent T = None then
                     remove_flow pre ip_group (Dsts [cur]) True (Some ip_source) (tag T) None
                   else
                     remove_backup (predecessor_switch T) pre ip_group origin_dst cur
                       (Some ip_source) (tag T) False)
                  (prune_flows n h pre ip_group ip_source origin_dst)))
       else ret ())"

fun remove_nodes :: "nat \<Rightarrow> nat \<Rightarrow> node \<Rightarrow> unit m" where
  "remove_nodes fuel h cur =
     bind (get_tree h) (\<lambda>T.
       if out_degree T cur = 0 \<and> cur \<noteq> root T then
         (case fuel of
            0 \<Rightarrow> (\<lambda>w. Timeout)
          | Suc n \<Rightarrow>
              bind (first_pred h cur) (\<lambda>pre.
              seq (upd_tree h (remove_node cur))
                  (remove_nodes n h pre)))
       else ret ())"

fun leave :: "nat \<Rightarrow> nat \<Rightarrow> node \<Rightarrow> addr \<Rightarrow> addr \<Rightarrow> node option \<Rightarrow> unit m"
  and leave_backups :: "nat \<Rightarrow> nat \<Rightarrow> node \<Rightarrow> node \<Rightarrow> addr \<Rightarrow> addr \<Rightarrow> unit m" where
  "leave 0 h v ip_group ip_source origin_dst = (\<lambda>w. Timeout)"
| "leave (Suc n) h v ip_group ip_source origin_dst =
     bind (get_tree h) (\<lambda>T.
       if \<not> has_node T v \<or> v = root T then ret ()
       else
         seq (prune_flows n h v ip_group ip_source origin_dst)
        (seq (leave_backups n h v v ip_group ip_source)
             (remove_nodes n h v)))"
| "leave_backups 0 h v cur ip_group ip_source =
     bind (get_tree h) (\<lambda>T. if cur \<noteq> root T then (\<lambda>w. Timeout) else ret ())"
| "leave_backups (Suc n) h v cur ip_group ip_source =
     bind (get_tree h) (\<lambda>T.
       if cur \<noteq> root T then
         bind (first_pred h cur) (\<lambda>pre.
         bind (lookup KeyError (map_of (tedges T) (pre, cur))) (\<lambda>backup.
         seq (case backup of
                None \<Rightarrow> ret ()
              | Some b \<Rightarrow> leave n b v ip_group ip_source (Some cur))
             (leave_backups n h v pre ip_group ip_source)))
       else ret ())"

text \<open>
  \<open>_process_request\<close>, the body of \<open>for i in range(1, len(path))\<close> for one \<open>i\<close>; it
  returns the item it appends to the queue, if any. \<open>len(L)/2 < F\<close> compares the same
  way with truncating and with true division, \<open>F\<close> being an integer.
\<close>

definition protect_edge :: "strategy \<Rightarrow> nat \<Rightarrow> int \<Rightarrow> addr \<Rightarrow> addr \<Rightarrow> node \<Rightarrow> node list \<Rightarrow> nat
    \<Rightarrow> (node \<times> node) list \<Rightarrow> nat \<Rightarrow> (node list \<times> nat \<times> (node \<times> node) list) option m" where
  "protect_edge strat fuel F ip_group ip_source v path h down i =
     bind (get_tree h) (\<lambda>T.
       let x = path ! (i - 1);
           y = path ! i;
           predecessor = (if i \<ge> 2 then Some (path ! (i - 2)) else predecessor_switch T)
       in
       bind (lookup KeyError (map_of (tedges T) (x, y))) (\<lambda>b0.
       bind (case b0 of
               Some b \<Rightarrow> ret b
             | None \<Rightarrow>
                 bind (create_tree x (Some h) predecessor) (\<lambda>b.
                 seq (upd_tree h (\<lambda>T. T\<lparr>tedges := AList.update (x, y) (Some b) (tedges T)\<rparr>))
                     (ret b))) (\<lambda>backup.
         let L = set_add (y, x) (set_add (x, y) (remdups down)) in
         bind (join strat fuel L backup v) (\<lambda>b_path.
           if length b_path > 0 then
             (let not_done = (int (length L) div 2 < F) in
              bind (nth_or_raise b_path 1) (\<lambda>nxt.
              bind (get_tree backup) (\<lambda>B.
              seq (if \<not> has_node B x then raise KeyError
                   else if nxt \<notin> set (successors B x) then
                     seq (add_backup predecessor x ip_group y nxt (Some ip_source) (tag B) (tag T)
                            not_done False)
                         (upd_tree backup (add_edge x nxt None))
                   else ret ())
             (seq (add_path ip_group ip_source backup (tl b_path) not_done)
                  (ret (if not_done then Some (b_path, backup, L) else None))))))
           else
             seq (log ''no backup path'')
            (bind (get_tree backup) (\<lambda>B.
             seq (if tsize B = 0 then
                    seq (upd_tree h (\<lambda>T. T\<lparr>tedges := AList.update (x, y) None (tedges T)\<rparr>))
                        (undo_tree backup)
                  else ret ())
                 (ret None)))))))"

fun protect_path :: "strategy \<Rightarrow> nat \<Rightarrow> int \<Rightarrow> addr \<Rightarrow> addr \<Rightarrow> node \<Rightarrow> node list \<Rightarrow> nat
    \<Rightarrow> (node \<times> node) list \<Rightarrow> nat list \<Rightarrow> (node list \<times> nat \<times> (node \<times> node) list) list
    \<Rightarrow> (node list \<times> nat \<times> (node \<times> node) list) list m" where
  "protect_path strat fuel F ip_group ip_source v path h down [] queue = ret queue"
| "protect_path strat fuel F ip_group ip_source v path h down (i # ix) queue =
     bind (protect_edge strat fuel F ip_group ip_source v path h down i) (\<lambda>item.
       protect_path strat fuel F ip_group ip_source v path h down ix
         (case item of None \<Rightarrow> queue | Some it \<Rightarrow> queue @ [it]))"

text \<open>\<open>while len(queue) > 0\<close>: one unit of fuel per item taken from the queue.\<close>

fun work :: "nat \<Rightarrow> strategy \<Rightarrow> nat \<Rightarrow> int \<Rightarrow> addr \<Rightarrow> addr \<Rightarrow> node
    \<Rightarrow> (node list \<times> nat \<times> (node \<times> node) list) list \<Rightarrow> unit m" where
  "work n strat fuel F ip_group ip_source v [] = ret ()"
| "work 0 strat fuel F ip_group ip_source v (it # queue) = (\<lambda>w. Timeout)"
| "work (Suc n) strat fuel F ip_group ip_source v ((path, h, down) # queue) =
     bind (protect_path strat fuel F ip_group ip_source v path h down [1 ..< length path] queue)
       (\<lambda>queue'. work n strat fuel F ip_group ip_source v queue')"

text \<open>What a Python call hands back: \<open>None\<close>, \<open>False\<close> or \<open>True\<close>.\<close>

datatype pyret = PyNone | PyBool bool

fun truthy :: "pyret \<Rightarrow> bool" where
  "truthy PyNone = False"
| "truthy (PyBool b) = b"

definition process_request :: "strategy \<Rightarrow> nat \<Rightarrow> nat \<Rightarrow> node \<Rightarrow> bool \<Rightarrow> int \<Rightarrow> addr \<Rightarrow> addr \<Rightarrow> pyret m" where
  "process_request strat fuel h v r F ip_group ip_source =
     (if \<not> r then
        seq (leave fuel h v ip_group ip_source None) (ret PyNone)
      else
        bind (join strat fuel [] h v) (\<lambda>path.
          if length path = 0 then seq (log ''no path'') (ret (PyBool False))
          else
            seq (add_path ip_group ip_source h path (F > 0))
           (seq (work fuel strat fuel F ip_group ip_source v (if F > 0 then [(path, h, [])] else []))
                (ret (PyBool True)))))"

text \<open>
  The two public entry points; neither has a \<open>return\<close> with a value. \<open>F\<close> and the
  strategy are the builder's fields.
\<close>

definition add_subscriber :: "strategy \<Rightarrow> nat \<Rightarrow> int \<Rightarrow> addr \<Rightarrow> addr \<Rightarrow> node \<Rightarrow> pyret m" where
  "add_subscriber strat fuel F ip_group ip_source subscriber =
     bind (gets (\<lambda>w. map_of (groups w) (ip_group, ip_source))) (\<lambda>g.
       case g of
         None \<Rightarrow> seq (log ''group does not exist'') (ret PyNone)
       | Some h \<Rightarrow>
           bind (get_tree h) (\<lambda>T.
             if has_node T subscriber then seq (log ''already added'') (ret PyNone)
             else
               bind (process_request strat fuel h subscriber True F ip_group ip_source) (\<lambda>res.
               seq (if truthy res then log ''added to group'' else ret ())
                   (ret PyNone))))"

definition remove_subscriber :: "strategy \<Rightarrow> nat \<Rightarrow> int \<Rightarrow> addr \<Rightarrow> addr \<Rightarrow> node \<Rightarrow> pyret m" where
  "remove_subscriber strat fuel F ip_group ip_source subscriber =
     bind (gets (\<lambda>w. map_of (groups w) (ip_group, ip_source))) (\<lambda>g.
       case g of
         None \<Rightarrow> seq (log ''group does not exist'') (ret PyNone)
       | Some h \<Rightarrow>
           bind (get_tree h) (\<lambda>T.
             if \<not> has_node T subscriber then seq (log ''not subscribed'') (ret PyNone)
             else
               bind (process_request strat fuel h subscriber False F ip_group ip_source) (\<lambda>res.
               seq (if truthy res then log ''removed from group'' else ret ())
                   (ret PyNone))))"

text \<open>\<open>create_group\<close>: a new primary rooted at \<open>switch_id\<close>, unless the key exists.\<close>

definition create_group :: "addr \<Rightarrow> addr \<Rightarrow> node \<Rightarrow> unit m" where
  "create_group ip_group ip_source switch_id =
     bind (gets (\<lambda>w. map_of (groups w) (ip_group, ip_source))) (\<lambda>g.
       case g of
         Some h \<Rightarrow> log ''group already created''
       | None \<Rightarrow>
           bind (create_tree switch_id None None) (\<lambda>h.
           seq (modify (\<lambda>w. w\<lparr>groups := AList.update (ip_group, ip_source) h (groups w)\<rparr>))
               (log ''created new group'')))"

section \<open>Example networks\<close>

definition world0 :: world where
  "world0 = \<lparr>nodes = [], adj = [], ip_2_mac = [], sent = [], logs = [], groups = [],
     trees = []\<rparr>"

text \<open>A store with one primary rooted at switch 1 whose \<open>tag_index\<close> stands at \<open>t\<close>.\<close>

definition primary_at :: "int \<Rightarrow> world" where
  "primary_at t = world0\<lparr>trees := [\<lparr>root = 1, parent = None, primary = 0,
      predecessor_switch = None, tag = None, tag_index = Some t, tnodes = [1], tedges = []\<rparr>]\<rparr>"

definition empty_switch :: switch where
  "empty_switch = \<lparr>flows = [], FF_groups = [], buckets = [], group_id_index = 1\<rparr>"

text \<open>
  Switch 1 with links to the switches 2, 3 and 4 and to the host 9 through its ports 2,
  3, 4 and 9; \<open>s\<close> is the forwarding state of switch 1. Group 230 and source 10 have known MACs.
\<close>

definition star_adj :: "((node \<times> node) \<times> edata) list" where
  "star_adj = [((1, 2), \<lparr>src_port = 2, dst_port = 1, live = True\<rparr>),
               ((1, 3), \<lparr>src_port = 3, dst_port = 1, live = True\<rparr>),
               ((1, 4), \<lparr>src_port = 4, dst_port = 1, live = True\<rparr>),
               ((1, 9), \<lparr>src_port = 9, dst_port = -1, live = True\<rparr>)]"

definition star :: "switch \<Rightarrow> world" where
  "star s = \<lparr>nodes = [(1, SwitchNode s), (2, SwitchNode empty_switch),
        (3, SwitchNode empty_switch), (4, SwitchNode empty_switch), (9, HostNode)],
     adj = star_adj, ip_2_mac = [(230, 23), (10, 11)], sent = [], logs = [], groups = [],
     trees = []\<rparr>"

definition key0 :: fkey where
  "key0 = McKey 230 (Some 10) None None"

text \<open>Switch 1 with the untagged flow of the group installed towards the ports 2 and 3.\<close>

definition two_out :: switch where
  "two_out = empty_switch\<lparr>flows := [(key0, ([2, 3], [], 1))]\<rparr>"

text \<open>A bidirectional link between port \<open>pa\<close> of \<open>a\<close> and port \<open>pb\<close> of \<open>b\<close>.\<close>

definition lnk :: "node \<Rightarrow> port \<Rightarrow> node \<Rightarrow> port \<Rightarrow> ((node \<times> node) \<times> edata) list" where
  "lnk a pa b pb = [((a, b), \<lparr>src_port = pa, dst_port = pb, live = True\<rparr>),
                    ((b, a), \<lparr>src_port = pb, dst_port = pa, live = True\<rparr>)]"

text \<open>
  Two parallel paths 1-2-4 and 1-3-4 between the switches 1 and 4, host 9 at switch 4
  (every port is numbered after the neighbour it leads to).
\<close>

definition diamond :: world where
  "diamond = world0\<lparr>nodes := [(1, SwitchNode empty_switch), (2, SwitchNode empty_switch),
        (3, SwitchNode empty_switch), (4, SwitchNode empty_switch), (9, HostNode)],
     adj := lnk 1 2 2 1 @ lnk 1 3 3 1 @ lnk 2 4 4 2 @ lnk 3 4 4 3 @ lnk 4 9 9 (-1),
     ip_2_mac := [(230, 23), (10, 11)]\<rparr>"

text \<open>The diamond with the group (230, 10) rooted at switch 1 and host 9 subscribed, \<open>F = 1\<close>.\<close>

definition joined :: world where
  "joined = (case bind (create_group 230 10 1) (\<lambda>_. add_subscriber SPT 20 1 230 10 9) diamond of
               Ok _ w \<Rightarrow> w | _ \<Rightarrow> world0)"

text \<open>
  Switches 1, 2, 3, 4, 6 with the links 1-2, 1-3, 3-2, 1-4, 4-6, 2-6; host 8 at switch
  2 and host 9 at switch 6.
\<close>

definition fork :: world where
  "fork = world0\<lparr>nodes := [(1, SwitchNode empty_switch), (2, SwitchNode empty_switch),
        (3, SwitchNode empty_switch), (4, SwitchNode empty_switch), (6, SwitchNode empty_switch),
        (8, HostNode), (9, HostNode)],
     adj := lnk 1 2 2 1 @ lnk 1 3 3 1 @ lnk 3 2 2 3 @ lnk 1 4 4 1 @ lnk 4 6 6 4 @ lnk 2 6 6 2
            @ lnk 2 8 8 (-1) @ lnk 6 9 9 (-1),
     ip_2_mac := [(230, 23), (10, 11)]\<rparr>"

definition key1 :: fkey where
  "key1 = McKey 230 (Some 10) (Some 1) None"

section \<open>The claims in the specification's words\<close>

text \<open>The entry recorded for a flow key on a switch.\<close>

definition recorded :: "world \<Rightarrow> node \<Rightarrow> fkey \<Rightarrow> (port list \<times> port list \<times> nat) option" where
  "recorded w switch_id key =
     (case map_of (nodes w) switch_id of
        Some (SwitchNode s) \<Rightarrow> map_of (flows s) key
      | _ \<Rightarrow> None)"

text \<open>
  The specification on \<open>add_flow\<close> with \<open>forced = false\<close> on an installed key: identical
  output sets make the call a no-op; otherwise the union of requested and installed
  ports is installed (messages are sent) and recorded.
\<close>

definition add_flow_stated :: "world \<Rightarrow> node \<Rightarrow> addr \<Rightarrow> node list \<Rightarrow> addr option \<Rightarrow> vtag
    \<Rightarrow> node option \<Rightarrow> bool" where
  "add_flow_stated w switch_id dst_address dsts src_address tg prev_switch_id =
     (let key = get_key True dst_address src_address tg prev_switch_id in
      case get_ports switch_id dsts w of
        Ok (ps, ph) _ \<Rightarrow>
          (case recorded w switch_id key of
             Some (cs, ch, n) \<Rightarrow>
               if set ps = set cs \<and> set ph = set ch
               then add_flow switch_id dst_address dsts True src_address tg False prev_switch_id w = Ok () w
               else (case add_flow switch_id dst_address dsts True src_address tg False prev_switch_id w of
                       Ok _ w' \<Rightarrow>
                         (case recorded w' switch_id key of
                            Some (rs, rh, k) \<Rightarrow>
                              set rs = set ps \<union> set cs \<and> set rh = set ph \<union> set ch
                              \<and> sent w' \<noteq> sent w
                          | None \<Rightarrow> False)
                     | _ \<Rightarrow> False)
           | None \<Rightarrow> True)
      | _ \<Rightarrow> True)"

text \<open>
  The invariant on the fast-failover index: every entry \<open>(port, key) \<mapsto> (group_id, index)\<close>
  points at an existing bucket of that group whose port is, or whose port list
  contains, \<open>port\<close> and whose tag is the tag of \<open>key\<close>.
\<close>

fun key_tag :: "fkey \<Rightarrow> vtag" where
  "key_tag (McKey d s t p) = t"
| "key_tag (UcKey d) = None"

definition ff_entry_ok :: "(int \<times> bucket list) list \<Rightarrow> ffkey \<Rightarrow> int \<times> nat \<Rightarrow> bool" where
  "ff_entry_ok bm k e =
     (case e of (g_id, idx) \<Rightarrow>
        (case map_of bm g_id of
           None \<Rightarrow> False
         | Some bs \<Rightarrow>
             idx < length bs \<and>
             (case bs ! idx of (bp, bt, d) \<Rightarrow>
                (case bp of Port q \<Rightarrow> q = fst k | Ports ps \<Rightarrow> fst k \<in> set ps)
                \<and> bt = key_tag (snd k))))"

definition ff_groups_ok :: "switch \<Rightarrow> bool" where
  "ff_groups_ok s = list_all (\<lambda>(k, es). list_all (ff_entry_ok (buckets s) k) es) (FF_groups s)"

definition switch_ok :: "world \<Rightarrow> node \<Rightarrow> bool" where
  "switch_ok w switch_id =
     (case map_of (nodes w) switch_id of Some (SwitchNode s) \<Rightarrow> ff_groups_ok s | _ \<Rightarrow> False)"

definition switch_of :: "world \<Rightarrow> node \<Rightarrow> switch" where
  "switch_of w switch_id =
     (case map_of (nodes w) switch_id of Some (SwitchNode s) \<Rightarrow> s | _ \<Rightarrow> empty_switch)"

section \<open>Properties\<close>

subsection \<open>Tag allocation\<close>

text \<open>
  C5. Let the primary of tree \<open>p\<close> hold \<open>tag_index = t\<close> with \<open>1 \<le> t \<le> 4094\<close>.
  Allocating a backup below \<open>p\<close> gives the backup the tag \<open>t\<close> and moves the primary's
  \<open>tag_index\<close> to \<open>t + 1\<close>, or to 1 when \<open>t = 4094\<close>; undoing the allocation right
  afterwards puts \<open>tag_index\<close> back to \<open>t\<close>, also across the wrap.
\<close>

theorem tag_alloc_roundtrip:
  assumes "p < length (trees w)"
    and "primary (trees w ! p) = prim"
    and "prim < length (trees w)"
    and "tag_index (trees w ! prim) = Some t"
    and "1 \<le> t" and "t \<le> 4094"
  shows "\<exists>h w1 w2. create_tree switch_id (Some p) pred_switch w = Ok h w1
           \<and> h = length (trees w)
           \<and> tag (trees w1 ! h) = Some t
           \<and> tag_index (trees w1 ! prim) = Some (if t = 4094 then 1 else t + 1)
           \<and> undo_tree h w1 = Ok () w2
           \<and> tag_index (trees w2 ! prim) = Some t
           \<and> (\<forall>i < length (trees w). i \<noteq> prim \<longrightarrow> trees w2 ! i = trees w ! i)"
  using assms
  by (auto simp: create_tree_def undo_tree_def bind_def seq_def get_tree_def put_tree_def
      new_tree_def lookup_def ret_def raise_def modify_def max_vid_def nth_append
      nth_list_update)

theorem tag_alloc_roundtrip_witness:
  "\<exists>h w1 w2. create_tree 7 (Some 0) None (primary_at 4094) = Ok h w1
      \<and> tag (trees w1 ! h) = Some 4094
      \<and> tag_index (trees w1 ! 0) = Some 1
      \<and> undo_tree h w1 = Ok () w2
      \<and> tag_index (trees w2 ! 0) = Some 4094"
  using tag_alloc_roundtrip [of 0 "primary_at 4094" 0 4094 7 None]
  by (auto simp: primary_at_def world0_def)

subsection \<open>Flow installation\<close>

lemma set_set_add: "set (set_add x s) = insert x (set s)"
  by (auto simp: set_add_def)

lemma set_fold_set_add: "set (fold set_add t s) = set s \<union> set t"
  by (induction t arbitrary: s) (auto simp: set_set_add)

lemma set_set_update: "set (set_update s t) = set s \<union> set t"
  by (simp add: set_update_def set_fold_set_add)

lemma send_msgs_eq: "send_msgs dp cs w = Ok () (w\<lparr>sent := sent w @ map (Pair dp) cs\<rparr>)"
  by (induction cs arbitrary: w)
     (auto simp: ret_def seq_def bind_def send_msg_def modify_def)

lemma check_existing_unforced:
  "check_existing (Some (cs, ch, n)) False ps ph =
     (if (cs \<noteq> [] \<or> ch \<noteq> []) \<and> set ps \<subseteq> set cs \<and> set ph \<subseteq> set ch
      then (False, n, ps, ph)
      else (True, if cs \<noteq> [] \<or> ch \<noteq> [] then n else 0,
            if cs \<noteq> [] \<or> ch \<noteq> [] then set_update ps cs else ps,
            if cs \<noteq> [] \<or> ch \<noteq> [] then set_update ph ch else ph))"
  by (auto simp: check_existing_def)

lemma add_flow_installs:
  assumes sw: "get_switch switch_id w = Ok sw w"
    and ports: "get_ports switch_id dsts w = Ok (ps, ph) w"
    and inp: "in_port_of prev_switch_id switch_id w = Ok inp w"
    and chk: "check_existing (map_of (flows sw) (get_key multicast dst_address src_address tg prev_switch_id)) forced ps ph = (True, n', rs, rh)"
    and mt: "get_match dst_address src_address multicast tg inp w = Ok mt w"
  shows "\<exists>w'. add_flow switch_id dst_address dsts multicast src_address tg forced prev_switch_id w = Ok () w'
      \<and> recorded w' switch_id (get_key multicast dst_address src_address tg prev_switch_id)
          = Some (rs, rh, length (get_actions (FF_groups sw) (get_key multicast dst_address src_address tg prev_switch_id) tg rs rh))
      \<and> sent w' = sent w @ map (Pair switch_id)
           (install_cmds (get_priority tg inp) n' mt
              (get_actions (FF_groups sw) (get_key multicast dst_address src_address tg prev_switch_id) tg rs rh))"
proof -
  have nd: "map_of (nodes w) switch_id = Some (SwitchNode sw)"
    using sw by (auto simp: get_switch_def split: option.splits nattr.splits)
  show ?thesis
    using sw ports inp chk mt nd
    by (simp add: add_flow_def bind_def seq_def Let_def install_actions_def send_msgs_eq
        recorded_def get_switch_def put_switch_def modify_def log_def ret_def update_conv')
qed


text \<open>
  C9, amended. For \<open>add_flow\<close> with \<open>forced = false\<close> on a key with a recorded entry
  (the switch, the ports of \<open>dsts\<close>, the arrival port and the match all resolve): when
  the entry is non-empty and every requested port is already in it, the call is a no-op
  (no message, state unchanged); otherwise it records the union of requested and
  installed ports and sends the pipeline for that union.
\<close>

theorem add_flow_unforced:
  assumes sw: "get_switch switch_id w = Ok sw w"
    and ports: "get_ports switch_id dsts w = Ok (ps, ph) w"
    and inp: "in_port_of prev_switch_id switch_id w = Ok inp w"
    and key: "key = get_key multicast dst_address src_address tg prev_switch_id"
    and cur: "map_of (flows sw) key = Some (cs, ch, n)"
    and mt: "get_match dst_address src_address multicast tg inp w = Ok mt w"
  shows "if (cs \<noteq> [] \<or> ch \<noteq> []) \<and> set ps \<subseteq> set cs \<and> set ph \<subseteq> set ch
         then add_flow switch_id dst_address dsts multicast src_address tg False prev_switch_id w = Ok () w
         else (\<exists>w' rs rh. add_flow switch_id dst_address dsts multicast src_address tg False prev_switch_id w = Ok () w'
                \<and> recorded w' switch_id key = Some (rs, rh, length (get_actions (FF_groups sw) key tg rs rh))
                \<and> set rs = set ps \<union> set cs \<and> set rh = set ph \<union> set ch
                \<and> sent w' = sent w @ map (Pair switch_id)
                     (install_cmds (get_priority tg inp) (if cs \<noteq> [] \<or> ch \<noteq> [] then n else 0) mt
                        (get_actions (FF_groups sw) key tg rs rh)))"
proof (cases "(cs \<noteq> [] \<or> ch \<noteq> []) \<and> set ps \<subseteq> set cs \<and> set ph \<subseteq> set ch")
  case True
  have nd: "map_of (nodes w) switch_id = Some (SwitchNode sw)"
    using sw by (auto simp: get_switch_def split: option.splits nattr.splits)
  have "check_existing (map_of (flows sw) key) False ps ph = (False, n, ps, ph)"
    using True cur by (simp add: check_existing_unforced)
  then have "add_flow switch_id dst_address dsts multicast src_address tg False prev_switch_id w = Ok () w"
    using sw ports inp unfolding key
    by (simp add: add_flow_def bind_def ret_def)
  with True show ?thesis by simp
next
  case False
  define n' where "n' = (if cs \<noteq> [] \<or> ch \<noteq> [] then n else 0)"
  define rs where "rs = (if cs \<noteq> [] \<or> ch \<noteq> [] then set_update ps cs else ps)"
  define rh where "rh = (if cs \<noteq> [] \<or> ch \<noteq> [] then set_update ph ch else ph)"
  have chk: "check_existing (map_of (flows sw) (get_key multicast dst_address src_address tg prev_switch_id))
               False ps ph = (True, n', rs, rh)"
    using False cur unfolding key n'_def rs_def rh_def
    by (simp add: check_existing_unforced)
  have sets: "set rs = set ps \<union> set cs" "set rh = set ph \<union> set ch"
    by (auto simp: rs_def rh_def set_set_update)
  from add_flow_installs [OF sw ports inp chk mt] sets False
  show ?thesis unfolding key n'_def by auto
qed

theorem add_flow_unforced_witness:
  "\<exists>w' rs rh. add_flow 1 230 [4] True (Some 10) None False None (star two_out) = Ok () w'
      \<and> recorded w' 1 key0 = Some (rs, rh, 1)
      \<and> set rs = {2, 3, 4} \<and> set rh = {}
      \<and> length (sent w') = 1"
  using add_flow_unforced [of 1 "star two_out" two_out "[4]" "[4]" "[]" None None key0 True 230
      "Some 10" None "[2, 3]" "[]" 1
      "\<lparr>eth_dst = 23, eth_src = Some 11, vlan_vid = None, in_port = None\<rparr>"]
  by (auto simp: star_def two_out_def empty_switch_def star_adj_def key0_def get_switch_def
      get_ports_def bind_def ret_def raise_def get_edge_def is_host_def set_add_def in_port_of_def get_key_def
      get_match_def gets_def lookup_def get_actions_def get_FF_key_def install_cmds_def)

text \<open>
  C9 as stated fails: with the ports 2 and 3 installed, a request for port 2 alone is not
  the identical output set, yet nothing is sent.
\<close>

theorem add_flow_stated_counterexample:
  "\<not> add_flow_stated (star two_out) 1 230 [2] (Some 10) None None"
  by (simp add: add_flow_stated_def star_def two_out_def empty_switch_def star_adj_def key0_def
      get_switch_def recorded_def add_flow_def check_existing_def
      get_ports_def bind_def ret_def raise_def get_edge_def is_host_def set_add_def in_port_of_def get_key_def)

subsection \<open>Removing a whole flow entry\<close>

lemma bind_Ok_iff:
  "bind f g w = Ok r w' \<longleftrightarrow> (\<exists>a w1. f w = Ok a w1 \<and> g a w1 = Ok r w')"
  by (auto simp: bind_def split: res.splits)

lemma seq_Ok_iff:
  "seq f g w = Ok r w' \<longleftrightarrow> (\<exists>w1. f w = Ok () w1 \<and> g w1 = Ok r w')"
  by (auto simp: seq_def bind_Ok_iff)

lemma get_switch_same: "get_switch s w = Ok sw w' \<Longrightarrow> w' = w \<and> map_of (nodes w) s = Some (SwitchNode sw)"
  by (auto simp: get_switch_def split: option.splits nattr.splits)

lemma in_port_of_same: "in_port_of p s w = Ok a w' \<Longrightarrow> w' = w"
  by (auto simp: in_port_of_def ret_def bind_def get_edge_def split: option.splits res.splits)

text \<open>
  C4. \<open>remove_flow\<close> with \<open>dsts = 'all'\<close> on a key that is installed never returns
  normally: whatever happens before, its closing log line reads \<open>ports_s\<close>, which this
  branch never assigned.
\<close>

theorem remove_flow_all_raises:
  assumes "recorded w switch_id (get_key multicast dst_address src_address tg prev_switch_id) = Some e"
  shows "remove_flow switch_id dst_address All multicast src_address tg prev_switch_id w \<noteq> Ok r w'"
proof
  assume ok: "remove_flow switch_id dst_address All multicast src_address tg prev_switch_id w = Ok r w'"
  obtain cs ch n where e: "e = (cs, ch, n)" by (cases e)
  from ok obtain sw0 w1 where sw0: "get_switch switch_id w = Ok sw0 w1"
    unfolding remove_flow_def bind_Ok_iff by blast
  from get_switch_same [OF sw0] assms e
  have fl: "map_of (flows sw0) (get_key multicast dst_address src_address tg prev_switch_id) = Some (cs, ch, n)"
    by (simp add: recorded_def)
  from get_switch_same [OF sw0] have nd: "map_of (nodes w) switch_id = Some (SwitchNode sw0)"
    by simp
  from ok fl nd show False
    unfolding remove_flow_def
    by (auto simp: bind_Ok_iff seq_Ok_iff Let_def ret_def raise_def
        dest!: get_switch_same in_port_of_same)
qed

theorem remove_flow_all_raises_witness:
  "\<forall>r w'. remove_flow 1 230 All True (Some 10) None None (star two_out) \<noteq> Ok r w'"
  using remove_flow_all_raises [of "star two_out" 1 True 230 "Some 10" None None "([2, 3], [], 1)"]
  by (simp add: recorded_def star_def two_out_def key0_def get_key_def)


text \<open>
  The same on a run: a tagged flow to a switch port and a host port occupies two tables;
  tearing it down sends two strict deletes, both for table 0, and raises.
\<close>

lemma remove_flow_all_example:
  "(case add_flow 1 230 [2, 9] True (Some 10) (Some 1) False None (star empty_switch) of
      Ok _ w1 \<Rightarrow>
        recorded w1 1 (McKey 230 (Some 10) (Some 1) None) = Some ([2], [9], 2) \<and>
        (case remove_flow 1 230 All True (Some 10) (Some 1) None w1 of
           Raise e w2 \<Rightarrow>
             e = UnboundLocalError
             \<and> recorded w2 1 (McKey 230 (Some 10) (Some 1) None) = None
             \<and> map snd (drop 2 (sent w2)) =
                 [OFPFlowMod 0 OFPFC_DELETE_STRICT 3
                    \<lparr>eth_dst = 23, eth_src = Some 11, vlan_vid = Some 4097, in_port = None\<rparr> None None,
                  OFPFlowMod 0 OFPFC_DELETE_STRICT 3
                    \<lparr>eth_dst = 23, eth_src = Some 11, vlan_vid = Some 4097, in_port = None\<rparr> None None]
         | _ \<Rightarrow> False)
    | _ \<Rightarrow> False)"
  by code_simp

subsection \<open>The fast-failover index\<close>

text \<open>
  C3. On switch 1, a first backup for the output to switch 2 (via switch 3, tag 1)
  appends a bucket and leaves the index sound. A second backup for the same output with
  the same tag (via switch 4) and \<open>needs_backup = false\<close> is coalesced into the bucket at
  position 1, but registered with position 0, the bucket of port 2 without tag: the
  invariant no longer holds.
\<close>

theorem add_backup_coalesce_breaks_index:
  "(case add_backup None 1 230 2 3 (Some 10) (Some 1) None False False (star empty_switch) of
      Ok _ w1 \<Rightarrow>
        switch_ok w1 1 \<and>
        (case add_backup None 1 230 2 4 (Some 10) (Some 1) None False False w1 of
           Ok _ w2 \<Rightarrow>
             \<not> switch_ok w2 1
             \<and> map_of (FF_groups (switch_of w2 1)) (4, McKey 230 (Some 10) (Some 1) None) = Some [(1, 0)]
             \<and> map_of (buckets (switch_of w2 1)) 1
                 = Some [(Port 2, None, False), (Ports [3, 4], Some 1, False)]
         | _ \<Rightarrow> False)
    | _ \<Rightarrow> False)"
  by code_simp


theorem add_backup_coalesce_breaks_index_witness:
  "\<exists>w1 w2. add_backup None 1 230 2 3 (Some 10) (Some 1) None False False (star empty_switch) = Ok () w1
      \<and> switch_ok w1 1
      \<and> add_backup None 1 230 2 4 (Some 10) (Some 1) None False False w1 = Ok () w2
      \<and> \<not> switch_ok w2 1"
  using add_backup_coalesce_breaks_index
  by (auto split: res.splits)

subsection \<open>Requests that change nothing\<close>

lemma get_tree_eq: "h < length (trees w) \<Longrightarrow> get_tree h w = Ok (trees w ! h) w"
  by (simp add: get_tree_def)

text \<open>
  C6. \<open>add_subscriber\<close> only logs when the key is unknown or the subscriber is already
  a node of the tree; \<open>remove_subscriber\<close> only logs when the key is unknown or the
  subscriber is not a node of the tree. Registry, trees, forwarding state and sent
  messages stay as they are.
\<close>

theorem subscriber_noop:
  "(map_of (groups w) (ip_group, ip_source) = None \<longrightarrow>
      add_subscriber strat fuel F ip_group ip_source v w
        = Ok PyNone (w\<lparr>logs := logs w @ [''group does not exist'']\<rparr>)
      \<and> remove_subscriber strat fuel F ip_group ip_source v w
        = Ok PyNone (w\<lparr>logs := logs w @ [''group does not exist'']\<rparr>))
   \<and> (map_of (groups w) (ip_group, ip_source) = Some h \<and> h < length (trees w) \<longrightarrow>
        (has_node (trees w ! h) v \<longrightarrow>
           add_subscriber strat fuel F ip_group ip_source v w
             = Ok PyNone (w\<lparr>logs := logs w @ [''already added'']\<rparr>))
        \<and> (\<not> has_node (trees w ! h) v \<longrightarrow>
           remove_subscriber strat fuel F ip_group ip_source v w
             = Ok PyNone (w\<lparr>logs := logs w @ [''not subscribed'']\<rparr>)))"
  by (simp add: add_subscriber_def remove_subscriber_def bind_def seq_def gets_def log_def
      modify_def ret_def get_tree_eq)

theorem subscriber_noop_witness:
  "add_subscriber SPT 20 1 230 10 9 diamond
      = Ok PyNone (diamond\<lparr>logs := logs diamond @ [''group does not exist'']\<rparr>)
   \<and> add_subscriber SPT 20 1 230 10 9 joined
      = Ok PyNone (joined\<lparr>logs := logs joined @ [''already added'']\<rparr>)
   \<and> remove_subscriber SPT 20 1 230 10 3 joined
      = Ok PyNone (joined\<lparr>logs := logs joined @ [''not subscribed'']\<rparr>)"
proof -
  have g0: "map_of (groups diamond) (230, 10) = None"
    by (simp add: diamond_def world0_def)
  have g1: "map_of (groups joined) (230, 10) = Some 0 \<and> 0 < length (trees joined)"
    by code_simp
  have n9: "has_node (trees joined ! 0) 9" by code_simp
  have n3: "\<not> has_node (trees joined ! 0) 3" by code_simp
  show ?thesis
    using subscriber_noop [of diamond 230 10 SPT 20 1 9 0]
      subscriber_noop [of joined 230 10 SPT 20 1 9 0]
      subscriber_noop [of joined 230 10 SPT 20 1 3 0] g0 g1 n9 n3
    by simp
qed

subsection \<open>What a leave reports\<close>

text \<open>
  C7. For a subscriber that is a node of an existing group's tree, \<open>remove_subscriber\<close>
  is the leave procedure and nothing more: \<open>_process_request\<close> hands on what \<open>_leave\<close>
  returns, which is \<open>None\<close>, so the success message guarded by that value is never
  logged and the call returns \<open>None\<close>.
\<close>

theorem remove_subscriber_reports_nothing:
  assumes "map_of (groups w) (ip_group, ip_source) = Some h"
    and "h < length (trees w)"
    and "has_node (trees w ! h) v"
  shows "remove_subscriber strat fuel F ip_group ip_source v w
           = seq (leave fuel h v ip_group ip_source None) (ret PyNone) w"
  using assms
  by (simp add: remove_subscriber_def process_request_def bind_def seq_def gets_def ret_def
      get_tree_eq split: res.splits)

theorem remove_subscriber_reports_nothing_witness:
  "remove_subscriber SPT 20 1 230 10 9 joined = seq (leave 20 0 9 230 10 None) (ret PyNone) joined
   \<and> (case remove_subscriber SPT 20 1 230 10 9 joined of
        Ok r w' \<Rightarrow> r = PyNone \<and> \<not> has_node (trees w' ! 0) 9
                   \<and> ''removed from group'' \<notin> set (logs w')
      | _ \<Rightarrow> False)
   \<and> ''added to group'' \<in> set (logs joined)"
proof -
  have g1: "map_of (groups joined) (230, 10) = Some 0" by code_simp
  have l1: "0 < length (trees joined)" by code_simp
  have n9: "has_node (trees joined ! 0) 9" by code_simp
  have run: "(case remove_subscriber SPT 20 1 230 10 9 joined of
        Ok r w' \<Rightarrow> r = PyNone \<and> \<not> has_node (trees w' ! 0) 9
                   \<and> ''removed from group'' \<notin> set (logs w')
      | _ \<Rightarrow> False)" by code_simp
  have added: "''added to group'' \<in> set (logs joined)" by code_simp
  from remove_subscriber_reports_nothing [OF g1 l1 n9, of SPT 20 1] run added
  show ?thesis by simp
qed

subsection \<open>Joining and leaving again\<close>

text \<open>
  C2. In the network \<open>fork\<close> with \<open>F = 1\<close> and host 8 subscribed, host 9 joins and leaves
  again. Before, switch 1 protects its output to switch 2 by the bucket (port 3, tag 1)
  and knows no backup through port 4; afterwards the bucket is the port list [3, 4] and
  the index still lists port 4 under tag 1.
\<close>

theorem add_remove_not_restored:
  "(case bind (create_group 230 10 1) (\<lambda>_. add_subscriber SPT 20 1 230 10 8) fork of
      Ok _ w1 \<Rightarrow>
        map_of (FF_groups (switch_of w1 1)) (4, key1) = None
        \<and> map_of (buckets (switch_of w1 1)) 1 = Some [(Port 2, None, False), (Port 3, Some 1, False)]
        \<and> \<not> has_node (trees w1 ! 0) 9
        \<and> (case bind (add_subscriber SPT 20 1 230 10 9) (\<lambda>_. remove_subscriber SPT 20 1 230 10 9) w1 of
             Ok _ w3 \<Rightarrow>
               map_of (FF_groups (switch_of w3 1)) (4, key1) = Some [(1, 0)]
               \<and> map_of (buckets (switch_of w3 1)) 1
                    = Some [(Port 2, None, False), (Ports [3, 4], Some 1, False)]
           | _ \<Rightarrow> False)
    | _ \<Rightarrow> False)"
  by code_simp

theorem add_remove_not_restored_witness:
  "\<exists>w1 w3 r1 r3. bind (create_group 230 10 1) (\<lambda>_. add_subscriber SPT 20 1 230 10 8) fork = Ok r1 w1
      \<and> bind (add_subscriber SPT 20 1 230 10 9) (\<lambda>_. remove_subscriber SPT 20 1 230 10 9) w1 = Ok r3 w3
      \<and> FF_groups (switch_of w3 1) \<noteq> FF_groups (switch_of w1 1)
      \<and> buckets (switch_of w3 1) \<noteq> buckets (switch_of w1 1)"
  using add_remove_not_restored
  by (auto split: res.splits)

end
